theory Spec2Isabelle
  imports Main
begin

section \<open>Python values used by the ARR waterfall scripts\<close>

text \<open>
  The scripts \<^verbatim>\<open>process_arr_waterfall.py\<close> and \<^verbatim>\<open>process_arr_waterfall_FINAL.py\<close> work on a
  pandas data frame read from a workbook. Every exception the code can raise is a value of
  \<open>error\<close>; a function that can raise returns \<open>error + 'a\<close> with \<open>Inl\<close> for the exception.
\<close>

datatype error = TypeError | ValueError | IndexError | OverflowError | IllegalMonthError

definition then_do :: "error + 'a \<Rightarrow> ('a \<Rightarrow> error + 'b) \<Rightarrow> error + 'b" where
  "then_do r f = (case r of Inl e \<Rightarrow> Inl e | Inr x \<Rightarrow> f x)"

subsection \<open>Strings: digits, whitespace, \<^verbatim>\<open>str.split\<close>, \<^verbatim>\<open>int()\<close>, \<^verbatim>\<open>str(int)\<close>\<close>

definition is_digit :: "char \<Rightarrow> bool" where
  "is_digit c = (48 \<le> (of_char c :: nat) \<and> (of_char c :: nat) \<le> 57)"

definition digit_val :: "char \<Rightarrow> nat" where
  "digit_val c = of_char c - 48"

definition digit_char :: "nat \<Rightarrow> char" where
  "digit_char d = ''0123456789'' ! d"

text \<open>
  A character is a code point below 256. The whitespace that \<^verbatim>\<open>int()\<close> and \<^verbatim>\<open>float()\<close> strip
  from both ends of a string: the codes 9 to 13 and 32, and the Unicode spaces U+0085 and
  U+00A0, which both functions turn into a blank first. The codes 28 to 31 are not stripped,
  though \<^verbatim>\<open>str.isspace\<close> holds for them.
\<close>

definition is_space :: "char \<Rightarrow> bool" where
  "is_space c = ((9 \<le> (of_char c :: nat) \<and> (of_char c :: nat) \<le> 13) \<or>
                 (of_char c :: nat) = 32 \<or> (of_char c :: nat) = 133 \<or>
                 (of_char c :: nat) = 160)"

definition strip :: "string \<Rightarrow> string" where
  "strip s = rev (dropWhile is_space (rev (dropWhile is_space s)))"

text \<open>\<^verbatim>\<open>s.split(c)\<close> for a one-character separator: the pieces between the separators, at least one.\<close>

fun split_on :: "char \<Rightarrow> string \<Rightarrow> string list" where
  "split_on c [] = [[]]"
| "split_on c (x # xs) =
     (if x = c then [] # split_on c xs
      else (case split_on c xs of [] \<Rightarrow> [[x]] | p # ps \<Rightarrow> (x # p) # ps))"

text \<open>The digit part of a Python numeric literal: digits, with single underscores between them.\<close>

fun digitpart :: "string \<Rightarrow> bool" where
  "digitpart [] = False"
| "digitpart [c] = is_digit c"
| "digitpart (c # d # cs) =
     (is_digit c \<and> (if d = CHR ''_'' then digitpart cs else digitpart (d # cs)))"

definition digits_val :: "string \<Rightarrow> nat" where
  "digits_val s = foldl (\<lambda>a c. 10 * a + digit_val c) 0 (filter is_digit s)"

text \<open>A leading sign of a numeric literal: whether it is a minus, and the rest.\<close>

fun take_sign :: "string \<Rightarrow> bool \<times> string" where
  "take_sign [] = (False, [])"
| "take_sign (c # cs) =
     (if c = CHR ''-'' then (True, cs) else if c = CHR ''+'' then (False, cs) else (False, c # cs))"

text \<open>
  \<^verbatim>\<open>int(s)\<close> on a string: surrounding whitespace is stripped, then an optional sign and a digit
  part in base 10; anything else raises ValueError. (No code point below 256 but the ASCII
  digits is a decimal digit; strings with code points from 256 on are outside the model.)
\<close>

definition py_int :: "string \<Rightarrow> error + int" where
  "py_int s =
     (case take_sign (strip s) of (neg, body) \<Rightarrow>
        if digitpart body
        then Inr (if neg then - int (digits_val body) else int (digits_val body))
        else Inl ValueError)"

text \<open>\<^verbatim>\<open>str(n)\<close> of a non-negative and of any integer.\<close>

function str_nat :: "nat \<Rightarrow> string" where
  "str_nat n = (if n < 10 then [digit_char n] else str_nat (n div 10) @ [digit_char (n mod 10)])"
  by pat_completeness auto
termination
  by (relation "measure id") auto

declare str_nat.simps [simp del]

definition str_int :: "int \<Rightarrow> string" where
  "str_int i = (if i < 0 then CHR ''-'' # str_nat (nat (- i)) else str_nat (nat i))"

text \<open>The format specification \<^verbatim>\<open>{i:0wd}\<close>: sign first, then zeros up to the width \<open>w\<close>.\<close>

definition zfill :: "nat \<Rightarrow> string \<Rightarrow> string" where
  "zfill w s = replicate (w - length s) (CHR ''0'') @ s"

definition fmt_0d :: "nat \<Rightarrow> int \<Rightarrow> string" where
  "fmt_0d w i = (if i < 0 then CHR ''-'' # zfill (w - 1) (str_nat (nat (- i)))
                 else zfill w (str_nat (nat i)))"

section \<open>\<^verbatim>\<open>process_arr_waterfall_FINAL.py\<close>: a period as the last day of its month\<close>

text \<open>
  \<^verbatim>\<open>calendar.isleap\<close>, \<^verbatim>\<open>calendar.mdays\<close> and the second component of \<^verbatim>\<open>calendar.monthrange\<close>
  (the number of days of the month; the first component, the weekday of day 1, is not used by
  the script). A month outside 1..12 raises IllegalMonthError.
\<close>

definition isleap :: "int \<Rightarrow> bool" where
  "isleap year = (year mod 4 = 0 \<and> (year mod 100 \<noteq> 0 \<or> year mod 400 = 0))"

definition mdays :: "nat list" where
  "mdays = [0, 31, 28, 31, 30, 31, 30, 31, 31, 30, 31, 30, 31]"

definition monthrange :: "int \<Rightarrow> int \<Rightarrow> error + nat" where
  "monthrange year month =
     (if \<not> (1 \<le> month \<and> month \<le> 12) then Inl IllegalMonthError
      else Inr (mdays ! nat month + (if month = 2 \<and> isleap year then 1 else 0)))"

text \<open>
  \<^verbatim>\<open>period_to_last_day\<close>: the period string is split at the dots into exactly a year and a month
  (the tuple assignment raises ValueError otherwise), both are read by \<^verbatim>\<open>int()\<close>, and the date is
  printed as \<^verbatim>\<open>f"{year:04d}-{month:02d}-{last_day:02d}"\<close>.
\<close>

definition period_to_last_day :: "string \<Rightarrow> error + string" where
  "period_to_last_day period_str =
     (case split_on (CHR ''.'') period_str of
        [year_s, month_s] \<Rightarrow>
          then_do (py_int year_s) (\<lambda>year.
          then_do (py_int month_s) (\<lambda>month.
          then_do (monthrange year month) (\<lambda>last_day.
            Inr (fmt_0d 4 year @ ''-'' @ fmt_0d 2 month @ ''-'' @ fmt_0d 2 (int last_day)))))
      | _ \<Rightarrow> Inl ValueError)"

text \<open>
  The calendar's side of the claim, written from the Gregorian rules and not from the code: a
  year is a leap year when it is divisible by 4 and not by 100, or by 400; February has 29 days
  in a leap year and 28 otherwise; April, June, September and November have 30 days; every
  other month has 31.
\<close>

definition leap_year :: "nat \<Rightarrow> bool" where
  "leap_year y = ((4 dvd y \<and> \<not> 100 dvd y) \<or> 400 dvd y)"

definition last_day_of_month :: "nat \<Rightarrow> nat \<Rightarrow> nat" where
  "last_day_of_month y m =
     (if m = 2 then (if leap_year y then 29 else 28)
      else if m = 4 \<or> m = 6 \<or> m = 9 \<or> m = 11 then 30 else 31)"

section \<open>\<^verbatim>\<open>process_arr_waterfall.py\<close>: cells and the data frame\<close>

text \<open>
  A Python float is given by its shortest round-trip decimal, the digits \<^verbatim>\<open>repr\<close> prints:
  \<open>Dec neg m e\<close> is the float printed with the digits of \<open>m\<close> (not ending in 0 unless \<open>m = 0\<close>),
  the double nearest to \<open>m * 10^e\<close>, negative when \<open>neg\<close>. The order of floats and the order of
  these decimals agree, and an integer that is a float is its own decimal, so comparing a
  float with the integers 2017 and 2030 is comparing its decimal with them.
\<close>

datatype pyfloat = Dec bool nat int | Infinity bool | NaN

text \<open>
  A cell of the sheet as pandas hands it over: a string, a Python int (in a column of mixed
  values), an integer of an all-integer column, which is a \<^verbatim>\<open>numpy.int64\<close> and neither an
  \<^verbatim>\<open>int\<close> nor a \<^verbatim>\<open>float\<close> for \<^verbatim>\<open>isinstance\<close>, a float (a Python float or a \<^verbatim>\<open>numpy.float64\<close>,
  which is a \<^verbatim>\<open>float\<close>; an empty cell is the float NaN), a bool, None, NaT, or an object of
  another type (a datetime, say), kept as its \<^verbatim>\<open>str()\<close>. A column label is such a value too.
\<close>

datatype cell =
  CStr string | CInt int | CInt64 int | CFloat pyfloat | CBool bool | CNone | CNaT | COther string

text \<open>
  The data frame \<^verbatim>\<open>df\<close>: the column labels in order and the rows in order, row 0 being the
  header row that holds the period of each column. \<^verbatim>\<open>read_excel\<close> makes the labels unique,
  so reading \<^verbatim>\<open>row[col_name]\<close> for \<^verbatim>\<open>col_name = all_cols[idx]\<close> is reading the row at
  position \<open>idx\<close>; a frame is rectangular, a position a row lacks is an empty cell.
\<close>

record dataframe =
  columns :: "cell list"
  rows :: "cell list list"

definition cell_at :: "cell list \<Rightarrow> nat \<Rightarrow> cell" where
  "cell_at row idx = (if idx < length row then row ! idx else CFloat NaN)"

text \<open>\<^verbatim>\<open>xs[i]\<close> for an index \<open>i \<ge> 0\<close>, \<^verbatim>\<open>xs[-1]\<close>, \<^verbatim>\<open>xs.index(x)\<close> and \<^verbatim>\<open>xs[a:b]\<close> for \<open>0 \<le> a \<le> b\<close>.\<close>

definition nth_err :: "'a list \<Rightarrow> nat \<Rightarrow> error + 'a" where
  "nth_err xs i = (if i < length xs then Inr (xs ! i) else Inl IndexError)"

definition last_err :: "'a list \<Rightarrow> error + 'a" where
  "last_err xs = (if xs = [] then Inl IndexError else Inr (last xs))"

fun index_of :: "'a list \<Rightarrow> 'a \<Rightarrow> error + nat" where
  "index_of [] x = Inl ValueError"
| "index_of (y # ys) x = (if y = x then Inr 0 else then_do (index_of ys x) (\<lambda>i. Inr (Suc i)))"

definition slice :: "'a list \<Rightarrow> nat \<Rightarrow> nat \<Rightarrow> 'a list" where
  "slice xs a b = take (b - a) (drop a xs)"

subsection \<open>Floats: comparison with integers, \<^verbatim>\<open>repr\<close>, \<^verbatim>\<open>int()\<close>, \<^verbatim>\<open>float()\<close>\<close>

text \<open>\<^verbatim>\<open>lo <= f <= hi\<close> for integers \<open>lo\<close>, \<open>hi\<close>: false for NaN and, between finite bounds, for the infinities.\<close>

fun float_between :: "int \<Rightarrow> int \<Rightarrow> pyfloat \<Rightarrow> bool" where
  "float_between lo hi (Dec neg m e) =
     (let sm = (if neg then - int m else int m) in
      if 0 \<le> e then lo \<le> sm * 10 ^ nat e \<and> sm * 10 ^ nat e \<le> hi
      else lo * 10 ^ nat (- e) \<le> sm \<and> sm \<le> hi * 10 ^ nat (- e))"
| "float_between lo hi (Infinity neg) = False"
| "float_between lo hi NaN = False"

text \<open>
  \<^verbatim>\<open>repr\<close> of a float (what \<^verbatim>\<open>str\<close> gives): with \<open>decpt\<close> the number of digits before the
  decimal point, positional notation when \<open>-4 < decpt \<le> 16\<close> (with \<^verbatim>\<open>.0\<close> for a whole
  number), scientific notation with an exponent of two digits at least otherwise.
\<close>

definition float_repr :: "pyfloat \<Rightarrow> string" where
  "float_repr f =
     (case f of
        NaN \<Rightarrow> ''nan''
      | Infinity neg \<Rightarrow> (if neg then ''-inf'' else ''inf'')
      | Dec neg m e \<Rightarrow>
          (if neg then ''-'' else []) @
          (if m = 0 then ''0.0''
           else
             let ds = str_nat m; decpt = int (length ds) + e in
             if - 4 < decpt \<and> decpt \<le> 16 then
               (if decpt \<le> 0 then ''0.'' @ replicate (nat (- decpt)) (CHR ''0'') @ ds
                else if int (length ds) \<le> decpt
                  then ds @ replicate (nat decpt - length ds) (CHR ''0'') @ ''.0''
                else take (nat decpt) ds @ ''.'' @ drop (nat decpt) ds)
             else
               take 1 ds @ (if 1 < length ds then ''.'' @ drop 1 ds else []) @ ''e'' @
               (if decpt - 1 < 0 then ''-'' else ''+'') @ zfill 2 (str_nat (nat \<bar>decpt - 1\<bar>))))"

text \<open>
  The double nearest to a natural number, with ties to the even mantissa of 53 bits: the
  float whose shortest decimal is a whole number \<open>n\<close> has this value, which is \<open>n\<close> itself
  below \<open>2^53\<close> and can differ from \<open>n\<close> beyond (the float \<^verbatim>\<open>1e23\<close> is
  99999999999999991611392).
\<close>

function bit_length :: "nat \<Rightarrow> nat" where
  "bit_length n = (if n = 0 then 0 else Suc (bit_length (n div 2)))"
  by pat_completeness auto
termination
  by (relation "measure id") auto

declare bit_length.simps [simp del]

definition nearest_double :: "nat \<Rightarrow> nat" where
  "nearest_double n =
     (if n < 2 ^ 53 then n
      else
        let k = bit_length n - 53; q = n div 2 ^ k; r = n mod 2 ^ k
        in (if 2 ^ k < 2 * r \<or> (2 * r = 2 ^ k \<and> odd q) then q + 1 else q) * 2 ^ k)"

text \<open>
  \<^verbatim>\<open>int(f)\<close>: the exact value of the float, truncated towards zero; ValueError for NaN,
  OverflowError for an infinity. A float with digits after the point is below \<open>2^53\<close>, where
  truncating its shortest decimal is truncating its value.
\<close>

definition int_of_float :: "pyfloat \<Rightarrow> error + int" where
  "int_of_float f =
     (case f of
        NaN \<Rightarrow> Inl ValueError
      | Infinity neg \<Rightarrow> Inl OverflowError
      | Dec neg m e \<Rightarrow>
          (let t = (if 0 \<le> e then int (nearest_double (m * 10 ^ nat e))
                    else int m div 10 ^ nat (- e))
           in Inr (if neg then - t else t)))"

definition lower :: "char \<Rightarrow> char" where
  "lower c = (if 65 \<le> (of_char c :: nat) \<and> (of_char c :: nat) \<le> 90
              then char_of ((of_char c :: nat) + 32) else c)"

text \<open>The text before the first of the characters \<open>cs\<close>, and the text after it when there is one.\<close>

definition cut_at :: "char list \<Rightarrow> string \<Rightarrow> string \<times> string option" where
  "cut_at cs s =
     (takeWhile (\<lambda>c. c \<notin> set cs) s,
      (case dropWhile (\<lambda>c. c \<notin> set cs) s of [] \<Rightarrow> None | _ # r \<Rightarrow> Some r))"

text \<open>
  \<^verbatim>\<open>float(s)\<close> on a string, by the grammar of the language reference: whitespace stripped, an
  optional sign, then \<^verbatim>\<open>inf\<close>, \<^verbatim>\<open>infinity\<close> or \<^verbatim>\<open>nan\<close> in any case, or a number (digit parts
  around an optional point, one of them at least) with an optional exponent (\<^verbatim>\<open>e\<close>, optional
  sign, digit part); ValueError otherwise. \<open>py_float\<close> gives what the string denotes:
  \<open>Literal neg m e\<close> is the decimal \<open>m * 10^e\<close>, negative when \<open>neg\<close>. The float that
  \<^verbatim>\<open>float(s)\<close> returns is the double nearest to that decimal, with ties to the even mantissa.
\<close>

datatype literal = Literal bool nat int | LitInfinity bool | LitNaN

text \<open>
  \<^verbatim>\<open>lo <= float(s) <= hi\<close> for integers \<open>lo\<close> and \<open>hi\<close> between 1024 and 2048, as 2017 and 2030
  are. The doubles next to such an integer are \<open>2^-42\<close> away and the integer has the even
  mantissa, so the nearest double of a decimal is at least \<open>lo\<close> exactly when the decimal is at
  least \<open>lo - 2^-43\<close>, and at most \<open>hi\<close> exactly when the decimal is at most \<open>hi + 2^-43\<close>. Both
  sides are multiplied by \<open>2^43\<close> and by the power of ten of the literal. An infinity and NaN
  are in no such range.
\<close>

fun rounds_between :: "int \<Rightarrow> int \<Rightarrow> literal \<Rightarrow> bool" where
  "rounds_between lo hi (Literal neg m e) =
     (let sm = (if neg then - int m else int m) in
      if 0 \<le> e then lo \<le> sm * 10 ^ nat e \<and> sm * 10 ^ nat e \<le> hi
      else (lo * 2 ^ 43 - 1) * 10 ^ nat (- e) \<le> sm * 2 ^ 43 \<and>
           sm * 2 ^ 43 \<le> (hi * 2 ^ 43 + 1) * 10 ^ nat (- e))"
| "rounds_between lo hi (LitInfinity neg) = False"
| "rounds_between lo hi LitNaN = False"

definition py_float :: "string \<Rightarrow> error + literal" where
  "py_float s =
     (case take_sign (strip s) of (neg, body) \<Rightarrow>
        if map lower body = ''inf'' \<or> map lower body = ''infinity'' then Inr (LitInfinity neg)
        else if map lower body = ''nan'' then Inr LitNaN
        else
          (case cut_at ''eE'' body of (mant, ex) \<Rightarrow>
           case cut_at ''.'' mant of (ip, fp) \<Rightarrow>
             let mant_ok =
                   (case fp of
                      None \<Rightarrow> digitpart ip
                    | Some fd \<Rightarrow> (ip = [] \<or> digitpart ip) \<and> (fd = [] \<or> digitpart fd) \<and>
                        \<not> (ip = [] \<and> fd = []));
                 fd = (case fp of None \<Rightarrow> [] | Some fd \<Rightarrow> fd);
                 ex_ok = (case ex of None \<Rightarrow> True | Some x \<Rightarrow> digitpart (snd (take_sign x)));
                 ex_val =
                   (case ex of
                      None \<Rightarrow> 0
                    | Some x \<Rightarrow>
                        (if fst (take_sign x) then - int (digits_val (snd (take_sign x)))
                         else int (digits_val (snd (take_sign x)))))
             in if mant_ok \<and> ex_ok
                then Inr (Literal neg (digits_val (ip @ fd))
                       (ex_val - int (length (filter is_digit fd))))
                else Inl ValueError))"

subsection \<open>\<^verbatim>\<open>str()\<close>, \<^verbatim>\<open>int()\<close>, \<^verbatim>\<open>notna()\<close> and numeric comparison of a cell\<close>

definition py_str :: "cell \<Rightarrow> string" where
  "py_str c =
     (case c of
        CStr s \<Rightarrow> s
      | CInt i \<Rightarrow> str_int i
      | CInt64 i \<Rightarrow> str_int i
      | CFloat f \<Rightarrow> float_repr f
      | CBool b \<Rightarrow> (if b then ''True'' else ''False'')
      | CNone \<Rightarrow> ''None''
      | CNaT \<Rightarrow> ''NaT''
      | COther r \<Rightarrow> r)"

definition notna :: "cell \<Rightarrow> bool" where
  "notna c = (c \<noteq> CFloat NaN \<and> c \<noteq> CNone \<and> c \<noteq> CNaT)"

text \<open>\<^verbatim>\<open>isinstance(v, (int, float))\<close>; a bool is an int, 0 or 1; a \<^verbatim>\<open>numpy.int64\<close> is neither.\<close>

fun is_number :: "cell \<Rightarrow> bool" where
  "is_number (CInt n) = True"
| "is_number (CBool b) = True"
| "is_number (CFloat f) = True"
| "is_number c = False"

text \<open>\<^verbatim>\<open>isinstance(v, (int, float)) and lo <= v <= hi\<close>.\<close>

fun num_between :: "int \<Rightarrow> int \<Rightarrow> cell \<Rightarrow> bool" where
  "num_between lo hi (CInt n) = (lo \<le> n \<and> n \<le> hi)"
| "num_between lo hi (CBool b) = (lo \<le> (if b then 1 else 0) \<and> (if b then 1 else 0) \<le> hi)"
| "num_between lo hi (CFloat f) = float_between lo hi f"
| "num_between lo hi c = False"

text \<open>\<^verbatim>\<open>int(v)\<close> of a number.\<close>

fun int_of_number :: "cell \<Rightarrow> error + int" where
  "int_of_number (CInt n) = Inr n"
| "int_of_number (CBool b) = Inr (if b then 1 else 0)"
| "int_of_number (CFloat f) = int_of_float f"
| "int_of_number c = Inl TypeError"

section \<open>\<^verbatim>\<open>process_arr_waterfall.py\<close>: the helper functions\<close>

subsection \<open>\<^verbatim>\<open>find_section_indices\<close>\<close>

record sections =
  arr_start :: "nat option"
  netchange_start :: "nat option"
  reason_start :: "nat option"
  filters_start :: "nat option"

text \<open>The body of the loop \<^verbatim>\<open>for idx, col in enumerate(columns)\<close>, and the loop.\<close>

definition section_step :: "sections \<Rightarrow> nat \<times> cell \<Rightarrow> sections" where
  "section_step sec p =
     (case p of (idx, col) \<Rightarrow>
        let col_str = py_str col in
        if col_str = ''ARR by Period by Product'' then sec\<lparr>arr_start := Some idx\<rparr>
        else if col_str = ''Net Change by Period'' then sec\<lparr>netchange_start := Some idx\<rparr>
        else if col_str = ''Net Change Reason by Period'' then sec\<lparr>reason_start := Some idx\<rparr>
        else if col_str = ''Net Change Filters'' then sec\<lparr>filters_start := Some idx\<rparr>
        else sec)"

definition find_section_indices :: "cell list \<Rightarrow> sections" where
  "find_section_indices cols =
     foldl section_step
       \<lparr>arr_start = None, netchange_start = None, reason_start = None, filters_start = None\<rparr>
       (enumerate 0 cols)"

subsection \<open>\<^verbatim>\<open>get_all_period_indices\<close>\<close>

text \<open>
  The test of one header cell: the \<^verbatim>\<open>try\<close> block, with the \<^verbatim>\<open>except (ValueError, TypeError)\<close>
  that skips the column. Only \<^verbatim>\<open>float()\<close> can raise there.
\<close>

definition is_valid_period :: "cell \<Rightarrow> bool" where
  "is_valid_period header_val =
     (if num_between 2017 2030 header_val then True
      else
        (case header_val of
           CStr s \<Rightarrow>
             (if CHR ''.'' \<in> set s then
                (case then_do (nth_err (split_on (CHR ''.'') s) 0) py_float of
                   Inl e \<Rightarrow> False
                 | Inr year_part \<Rightarrow> rounds_between 2017 2030 year_part)
              else False)
         | _ \<Rightarrow> False))"

text \<open>The loop over \<^verbatim>\<open>range(section_start, next_section_start)\<close>, appending to \<^verbatim>\<open>period_indices\<close>.\<close>

fun scan_periods :: "cell list \<Rightarrow> cell list \<Rightarrow> nat list \<Rightarrow> nat list \<Rightarrow> error + nat list" where
  "scan_periods all_cols header_row [] period_indices = Inr period_indices"
| "scan_periods all_cols header_row (idx # idxs) period_indices =
     (if idx < length all_cols then
        scan_periods all_cols header_row idxs
          (if is_valid_period (cell_at header_row idx) then period_indices @ [idx]
           else period_indices)
      else Inl IndexError)"

text \<open>
  \<^verbatim>\<open>df.iloc[header_row_idx]\<close> raises IndexError when the frame has no such row; \<^verbatim>\<open>range\<close> raises
  TypeError on a bound that is None, which is what \<^verbatim>\<open>find_section_indices\<close> leaves for a
  section it has not found.
\<close>

definition get_all_period_indices ::
  "dataframe \<Rightarrow> nat option \<Rightarrow> nat option \<Rightarrow> nat \<Rightarrow> error + nat list" where
  "get_all_period_indices df section_start next_section_start header_row_idx =
     then_do (nth_err (rows df) header_row_idx) (\<lambda>header_row.
       (case section_start of
          None \<Rightarrow> Inl TypeError
        | Some s \<Rightarrow>
            (case next_section_start of
               None \<Rightarrow> Inl TypeError
             | Some e \<Rightarrow> scan_periods (columns df) header_row [s..<e] [])))"

subsection \<open>\<^verbatim>\<open>get_trailing_12_indices_with_data\<close>\<close>

definition MIN_DATA_ROWS :: int where
  "MIN_DATA_ROWS = 1000"

text \<open>\<^verbatim>\<open>df.iloc[1:][col_name].notna().sum()\<close>: the cells of the column below row 0 that are not null.\<close>

definition non_null_count :: "dataframe \<Rightarrow> nat \<Rightarrow> nat" where
  "non_null_count df idx = length (filter (\<lambda>row. notna (cell_at row idx)) (drop 1 (rows df)))"

fun keep_with_data :: "dataframe \<Rightarrow> int \<Rightarrow> nat list \<Rightarrow> nat list \<Rightarrow> nat list" where
  "keep_with_data df min_data_rows [] valid_period_indices = valid_period_indices"
| "keep_with_data df min_data_rows (idx # idxs) valid_period_indices =
     keep_with_data df min_data_rows idxs
       (if min_data_rows \<le> int (non_null_count df idx) then valid_period_indices @ [idx]
        else valid_period_indices)"

text \<open>
  The function returns the indices; the second component is what it prints, the warning of a
  window of fewer than 12 periods. (\<^verbatim>\<open>all_cols[idx]\<close> cannot raise in its loop: every index
  comes from \<^verbatim>\<open>get_all_period_indices\<close>, which has read \<^verbatim>\<open>all_cols\<close> there.)
\<close>

definition get_trailing_12_indices_with_data ::
  "dataframe \<Rightarrow> nat option \<Rightarrow> nat option \<Rightarrow> nat \<Rightarrow> int \<Rightarrow> error + (nat list \<times> string list)" where
  "get_trailing_12_indices_with_data df section_start next_section_start header_row_idx
       min_data_rows =
     then_do (get_all_period_indices df section_start next_section_start header_row_idx)
       (\<lambda>all_period_indices.
          let valid_period_indices = keep_with_data df min_data_rows all_period_indices [] in
          if 12 \<le> length valid_period_indices
          then Inr (drop (length valid_period_indices - 12) valid_period_indices, [])
          else Inr (valid_period_indices,
                 [''  WARNING: Only found '' @ str_nat (length valid_period_indices) @
                  '' periods with data'']))"

subsection \<open>\<^verbatim>\<open>get_period_value\<close>, \<^verbatim>\<open>calculate_period_names\<close>, \<^verbatim>\<open>detect_start_period_from_first_value\<close>\<close>

definition get_period_value :: "dataframe \<Rightarrow> nat \<Rightarrow> nat \<Rightarrow> error + cell" where
  "get_period_value df col_idx header_row_idx =
     then_do (nth_err (columns df) col_idx) (\<lambda>col_name.
     then_do (nth_err (rows df) header_row_idx) (\<lambda>header_row.
       Inr (cell_at header_row col_idx)))"

definition calculate_period_names :: "int \<Rightarrow> int \<Rightarrow> nat \<Rightarrow> string list" where
  "calculate_period_names start_year start_month count =
     map (\<lambda>i. let total_months = start_year * 12 + start_month - 1 + int i
               in str_int (total_months div 12) @ ''_'' @ fmt_0d 2 (total_months mod 12 + 1))
       [0..<count]"

text \<open>
  The function takes the period value and nothing else. A string is split at the dots and
  its first two parts are read by \<^verbatim>\<open>int()\<close>; a number is printed by \<^verbatim>\<open>str()\<close> first, and is
  the January of its year when that has no dot; any other value gives the fallback December
  2024.
\<close>

definition detect_start_period_from_first_value :: "cell \<Rightarrow> error + (int \<times> int)" where
  "detect_start_period_from_first_value period_val =
     (case period_val of
        CStr s \<Rightarrow>
          (let parts = split_on (CHR ''.'') s in
           then_do (then_do (nth_err parts 0) py_int) (\<lambda>y.
           then_do (then_do (nth_err parts 1) py_int) (\<lambda>m. Inr (y, m))))
      | _ \<Rightarrow>
          if is_number period_val then
            (let val_str = py_str period_val in
             if CHR ''.'' \<in> set val_str then
               (let parts = split_on (CHR ''.'') val_str in
                then_do (then_do (nth_err parts 0) py_int) (\<lambda>year.
                then_do (nth_err parts 1) (\<lambda>month_str.
                then_do (py_int month_str) (\<lambda>month. Inr (year, month)))))
             else then_do (int_of_number period_val) (\<lambda>y. Inr (y, 1)))
          else Inr (2024, 12))"

section \<open>\<^verbatim>\<open>process_arr_waterfall.py\<close>: the main processing\<close>

subsection \<open>Mapping the trailing window to the other sections\<close>

text \<open>
  The lines from \<^verbatim>\<open>first_trailing_idx = arr_indices[0]\<close> to the report of the mapped indices.
  First the windows: the relative start position of the reference window, which needs a first
  column of that window (IndexError without) that is among the period columns of the
  reference section (ValueError otherwise), and for each other section the slice
  \<^verbatim>\<open>[relative_start_pos:relative_start_pos + 12]\<close> of its period columns. Then the report, which
  reads the first and the last index of each window and raises IndexError on an empty window.
  \<open>printed\<close> holds the lines the block prints.
\<close>

record selection =
  arr_indices :: "nat list"
  netchange_indices :: "nat list"
  reason_indices :: "nat list"
  printed :: "string list"

definition span_line :: "string \<Rightarrow> nat \<Rightarrow> nat \<Rightarrow> nat \<Rightarrow> string" where
  "span_line title first_idx last_idx n =
     ''  '' @ title @ '': '' @ str_nat first_idx @ '' to '' @ str_nat last_idx @
     '' ('' @ str_nat n @ '' periods)''"

definition align_windows ::
  "nat list \<Rightarrow> nat list \<Rightarrow> nat list \<Rightarrow> nat list \<Rightarrow> error + (nat \<times> nat list \<times> nat list)" where
  "align_windows arr_idx arr_all_periods netchange_all_periods reason_all_periods =
     then_do (nth_err arr_idx 0) (\<lambda>first_trailing_idx.
     then_do (index_of arr_all_periods first_trailing_idx) (\<lambda>relative_start_pos.
       Inr (relative_start_pos,
            slice netchange_all_periods relative_start_pos (relative_start_pos + 12),
            slice reason_all_periods relative_start_pos (relative_start_pos + 12))))"

definition map_sections :: "nat list \<Rightarrow> nat list \<Rightarrow> nat list \<Rightarrow> nat list \<Rightarrow> error + selection" where
  "map_sections arr_idx arr_all_periods netchange_all_periods reason_all_periods =
     then_do (align_windows arr_idx arr_all_periods netchange_all_periods reason_all_periods)
       (\<lambda>(relative_start_pos, netchange_idx, reason_idx).
     then_do (nth_err arr_idx 0) (\<lambda>first_trailing_idx.
     then_do (last_err arr_idx) (\<lambda>arr_last.
     then_do (nth_err netchange_idx 0) (\<lambda>netchange_first.
     then_do (last_err netchange_idx) (\<lambda>netchange_last.
     then_do (nth_err reason_idx 0) (\<lambda>reason_first.
     then_do (last_err reason_idx) (\<lambda>reason_last.
       Inr \<lparr>arr_indices = arr_idx, netchange_indices = netchange_idx,
            reason_indices = reason_idx,
            printed =
              [CHR 0x0A # ''ARR trailing 12 indices: '' @ str_nat first_trailing_idx @
                 '' to '' @ str_nat arr_last,
               ''Relative start position within section: '' @ str_nat relative_start_pos,
               CHR 0x0A # ''Mapped indices:'',
               span_line ''ARR'' first_trailing_idx arr_last (length arr_idx),
               span_line ''Net Change'' netchange_first netchange_last (length netchange_idx),
               span_line ''Change Reason'' reason_first reason_last (length reason_idx)]\<rparr>)))))))"

text \<open>
  The run from \<^verbatim>\<open>find_section_indices(all_cols)\<close> to the mapped indices, with the default
  header row 0 and the default threshold \<^verbatim>\<open>MIN_DATA_ROWS\<close>. The three identifier columns are
  read at the positions 0, 1 and 35. Of the printed lines, the warning of the window selection
  and the report of the mapping are kept; the banner and the section boundaries are not.
\<close>

definition select_windows :: "dataframe \<Rightarrow> error + selection" where
  "select_windows df =
     (let all_cols = columns df; sec = find_section_indices all_cols in
      then_do (nth_err all_cols 0) (\<lambda>sf_num_col.
      then_do (nth_err all_cols 1) (\<lambda>customer_name_col.
      then_do (nth_err all_cols 35) (\<lambda>product_col.
      then_do (get_trailing_12_indices_with_data df (arr_start sec) (netchange_start sec) 0
                 MIN_DATA_ROWS) (\<lambda>trailing.
      then_do (get_all_period_indices df (arr_start sec) (netchange_start sec) 0)
        (\<lambda>arr_all_periods.
      then_do (get_all_period_indices df (netchange_start sec) (reason_start sec) 0)
        (\<lambda>netchange_all_periods.
      then_do (get_all_period_indices df (reason_start sec) (filters_start sec) 0)
        (\<lambda>reason_all_periods.
      then_do (map_sections (fst trailing) arr_all_periods netchange_all_periods
                 reason_all_periods) (\<lambda>sel.
        Inr (sel\<lparr>printed := snd trailing @ printed sel\<rparr>))))))))))"

subsection \<open>The data rows and the three sheets\<close>

text \<open>
  \<^verbatim>\<open>df_data = df[df[sf_num_col] != 'SF #']\<close>: the comparison holds for every cell but the string
  \<^verbatim>\<open>SF #\<close> itself, an empty cell included. Each sheet is \<^verbatim>\<open>df_data\<close> restricted to the three
  identifier columns and the columns of its window.
\<close>

definition df_data :: "dataframe \<Rightarrow> dataframe" where
  "df_data df = df\<lparr>rows := filter (\<lambda>row. cell_at row 0 \<noteq> CStr ''SF #'') (rows df)\<rparr>"

definition sheet_rows :: "dataframe \<Rightarrow> nat list \<Rightarrow> cell list list" where
  "sheet_rows dfd idxs = map (\<lambda>row. map (cell_at row) ([0, 1, 35] @ idxs)) (rows dfd)"

text \<open>
  A sheet: the three identifier columns and the window's columns of \<^verbatim>\<open>df_data\<close>, renamed to
  \<^verbatim>\<open>SF_Account_Number\<close>, \<^verbatim>\<open>Customer_Name\<close>, \<^verbatim>\<open>Product\<close> and \<^verbatim>\<open>period_names[pos]\<close> with the suffix of
  the sheet; \<^verbatim>\<open>period_names[pos]\<close> raises IndexError beyond the names there are.
\<close>

definition build_sheet :: "dataframe \<Rightarrow> string list \<Rightarrow> string \<Rightarrow> nat list \<Rightarrow> error + dataframe" where
  "build_sheet dfd period_names suffix idxs =
     (if length period_names < length idxs then Inl IndexError
      else Inr \<lparr>columns =
                  [CStr ''SF_Account_Number'', CStr ''Customer_Name'', CStr ''Product''] @
                  map (\<lambda>p. CStr (p @ suffix)) (take (length idxs) period_names),
                rows = sheet_rows dfd idxs\<rparr>)"

text \<open>
  The whole run on a loaded frame: the windows, the starting period read from the header cell
  of the first window column, the twelve period names, and the three sheets
  (\<^verbatim>\<open>util_waterfall_arr_import\<close>, \<^verbatim>\<open>util_waterfall_netChange_import\<close>,
  \<^verbatim>\<open>util_waterfall_changeReason_imp\<close>) that are written to the output file.
\<close>

definition process_arr_waterfall :: "dataframe \<Rightarrow> error + dataframe list" where
  "process_arr_waterfall df =
     then_do (select_windows df) (\<lambda>sel.
     then_do (nth_err (arr_indices sel) 0) (\<lambda>first_idx.
     then_do (get_period_value df first_idx 0) (\<lambda>first_period_val.
     then_do (detect_start_period_from_first_value first_period_val) (\<lambda>start.
       let period_names = calculate_period_names (fst start) (snd start) 12;
           dfd = df_data df
       in
       then_do (build_sheet dfd period_names ''_ARR'' (arr_indices sel)) (\<lambda>arr_df.
       then_do (build_sheet dfd period_names ''_NetChange'' (netchange_indices sel))
         (\<lambda>netchange_df.
       then_do (build_sheet dfd period_names ''_ChangeReason'' (reason_indices sel))
         (\<lambda>reason_df.
         Inr [arr_df, netchange_df, reason_df])))))))"

section \<open>\<^verbatim>\<open>process_arr_waterfall_FINAL.py\<close>: the rows with a numeric account number\<close>


section \<open>The specification's side\<close>

text \<open>
  The period columns as the specification describes them: the header cell is a numeric value
  in the plausible-year range 2017 to 2030, an integer of either kind or a float, or a text
  with a \<^verbatim>\<open>.\<close> separator whose year segment, the text before the first separator, read as a
  number, lies in that range.
\<close>

definition year_segment :: "string \<Rightarrow> string" where
  "year_segment s = takeWhile (\<lambda>c. c \<noteq> CHR ''.'') s"

definition plausible_year :: "pyfloat \<Rightarrow> bool" where
  "plausible_year y = float_between 2017 2030 y"

definition plausible_period_header :: "cell \<Rightarrow> bool" where
  "plausible_period_header c =
     (case c of
        CInt n \<Rightarrow> 2017 \<le> n \<and> n \<le> 2030
      | CInt64 n \<Rightarrow> 2017 \<le> n \<and> n \<le> 2030
      | CFloat f \<Rightarrow> plausible_year f
      | CStr s \<Rightarrow>
          CHR ''.'' \<in> set s \<and>
          (case py_float (year_segment s) of
             Inl e \<Rightarrow> False
           | Inr y \<Rightarrow> rounds_between 2017 2030 y)
      | _ \<Rightarrow> False)"

text \<open>
  The four section labels the run requires, and the start index the classifier reports for
  each of them.
\<close>

definition required_sentinels :: "string list" where
  "required_sentinels =
     [''ARR by Period by Product'', ''Net Change by Period'', ''Net Change Reason by Period'',
      ''Net Change Filters'']"

definition reported_start :: "string \<Rightarrow> sections \<Rightarrow> nat option" where
  "reported_start label sec =
     (if label = ''ARR by Period by Product'' then arr_start sec
      else if label = ''Net Change by Period'' then netchange_start sec
      else if label = ''Net Change Reason by Period'' then reason_start sec
      else if label = ''Net Change Filters'' then filters_start sec
      else None)"

section \<open>Example frames\<close>

text \<open>
  The section title in the header-row cell under a positional label, and the section title as
  the label over a period in the header row.
\<close>

definition titled_row_frame :: dataframe where
  "titled_row_frame =
     \<lparr>columns = [CStr ''Unnamed: 0''], rows = [[CStr ''ARR by Period by Product'']]\<rparr>"

definition titled_label_frame :: dataframe where
  "titled_label_frame =
     \<lparr>columns = [CStr ''ARR by Period by Product''], rows = [[CStr ''2025.01'']]\<rparr>"

text \<open>
  A sheet of 40 columns: the account number, the customer name, 33 columns that play no part,
  the product at position 35, and one period column for each of the three sections, then the
  filters. The labels are positional up to the section titles. Row 0 holds the periods; the
  first data row has an empty account number, the second is the header literal reappearing,
  and 1000 filled rows follow.
\<close>

definition wide_labels :: "cell list \<Rightarrow> cell list" where
  "wide_labels titles = map (\<lambda>i. CStr (''Unnamed: '' @ str_nat i)) [0..<36] @ titles"

definition sheet_row :: "cell \<Rightarrow> cell \<Rightarrow> cell list \<Rightarrow> cell list" where
  "sheet_row acct product cells =
     acct # CStr ''Acme'' # replicate 33 (CFloat NaN) @ product # cells"

definition wide_frame :: "cell list \<Rightarrow> dataframe" where
  "wide_frame titles =
     \<lparr>columns = wide_labels titles,
      rows =
        sheet_row (CStr ''SF #'') (CStr ''Product'')
          [CStr ''2025.01'', CStr ''2025.01'', CStr ''2025.01'', CFloat NaN] #
        sheet_row (CFloat NaN) (CStr ''Subtotal'') [CInt 7, CInt 0, CStr ''-'', CFloat NaN] #
        sheet_row (CStr ''SF #'') (CStr ''Product'')
          [CStr ''2025.01'', CStr ''2025.01'', CStr ''2025.01'', CFloat NaN] #
        replicate 1000
          (sheet_row (CInt 1001) (CStr ''EHR'') [CInt 5, CInt 1, CStr ''New'', CFloat NaN])\<rparr>"




text \<open>
  A section with a mixture of header cells: two textual periods, a float period, an empty
  cell, a whole year, and a trailing \<^verbatim>\<open>Total\<close> column.
\<close>

definition mixed_frame :: dataframe where
  "mixed_frame =
     \<lparr>columns = [CStr ''SF #'', CStr ''ARR by Period by Product'', CStr ''Unnamed: 2'',
                 CStr ''Unnamed: 3'', CStr ''Unnamed: 4'', CStr ''Unnamed: 5'',
                 CStr ''Net Change by Period''],
      rows = [[CStr ''SF #'', CStr ''2025.01'', CFloat (Dec False 202502 (- 2)), CFloat NaN,
               CInt 2025, CStr ''Total'', CStr ''2025.01'']]\<rparr>"

text \<open>
  Three columns headed by the year 2025: as a Python int, as the \<^verbatim>\<open>numpy.int64\<close> of an
  all-integer column, and as the float 2025.01.
\<close>

definition int64_frame :: dataframe where
  "int64_frame =
     \<lparr>columns = [CStr ''A'', CStr ''B'', CStr ''C''],
      rows = [[CInt 2025, CInt64 2025, CFloat (Dec False 202501 (- 2))],
              [CStr ''-'', CInt64 7, CFloat (Dec False 15 (- 1))]]\<rparr>"

text \<open>Two header cells whose month segment is no month.\<close>

definition odd_month_frame :: dataframe where
  "odd_month_frame =
     \<lparr>columns = [CStr ''A'', CStr ''B''], rows = [[CStr ''2025.99'', CStr ''2025.xyz'']]\<rparr>"

text \<open>
  Fourteen period columns, 2024.11 to 2025.12, and two data rows: the first two columns are
  empty, the other twelve are filled.
\<close>

definition frame14 :: dataframe where
  "frame14 =
     \<lparr>columns = [CStr ''Unnamed: 0'', CStr ''Unnamed: 1'', CStr ''Unnamed: 2'', CStr ''Unnamed: 3'', CStr ''Unnamed: 4'', CStr ''Unnamed: 5'', CStr ''Unnamed: 6'', CStr ''Unnamed: 7'', CStr ''Unnamed: 8'', CStr ''Unnamed: 9'', CStr ''Unnamed: 10'', CStr ''Unnamed: 11'', CStr ''Unnamed: 12'', CStr ''Unnamed: 13''],
     rows = [[CStr ''2024.11'', CStr ''2024.12'', CStr ''2025.01'', CStr ''2025.02'', CStr ''2025.03'', CStr ''2025.04'', CStr ''2025.05'', CStr ''2025.06'', CStr ''2025.07'', CStr ''2025.08'', CStr ''2025.09'', CStr ''2025.10'', CStr ''2025.11'', CStr ''2025.12''],
             [CFloat NaN, CFloat NaN, CInt 5, CInt 5, CInt 5, CInt 5, CInt 5, CInt 5, CInt 5, CInt 5, CInt 5, CInt 5, CInt 5, CInt 5],
             [CFloat NaN, CFloat NaN, CInt 5, CInt 5, CInt 5, CInt 5, CInt 5, CInt 5, CInt 5, CInt 5, CInt 5, CInt 5, CInt 5, CInt 5]]\<rparr>"

text \<open>The section titles without the label of the filters.\<close>

definition titles_without_filters :: "cell list" where
  "titles_without_filters =
     [CStr ''ARR by Period by Product'', CStr ''Net Change by Period'',
      CStr ''Net Change Reason by Period'', CStr ''Notes'']"



text \<open>
  The indices of a mapping: a reference section of 14 period columns whose trailing window
  starts at its third column, another section of 13 period columns, and a third of 14.
\<close>

definition ref14_window :: "nat list" where
  "ref14_window = [12, 13, 14, 15, 16, 17, 18, 19, 20, 21, 22, 23]"

definition ref14_periods :: "nat list" where
  "ref14_periods = [10, 11, 12, 13, 14, 15, 16, 17, 18, 19, 20, 21, 22, 23]"

definition short13_periods :: "nat list" where
  "short13_periods = [30, 31, 32, 33, 34, 35, 36, 37, 38, 39, 40, 41, 42]"

definition other14_periods :: "nat list" where
  "other14_periods = [50, 51, 52, 53, 54, 55, 56, 57, 58, 59, 60, 61, 62, 63]"

section \<open>Properties\<close>

subsection \<open>Evaluating \<^verbatim>\<open>str()\<close> of a number\<close>

lemma str_nat_numeral:
  "str_nat (numeral k) =
     (if (numeral k :: nat) < 10 then [digit_char (numeral k)]
      else str_nat (numeral k div 10) @ [digit_char (numeral k mod 10)])"
  by (rule str_nat.simps)

lemma str_nat_small: "str_nat 0 = ''0''" "str_nat 1 = ''1''" "str_nat (Suc 0) = ''1''"
  by (simp_all add: str_nat.simps digit_char_def)

subsection \<open>Digit strings\<close>

lemma then_do_Inr [simp]: "then_do (Inr x) f = f x"
  by (simp add: then_do_def)

lemma then_do_Inl [simp]: "then_do (Inl e) f = Inl e"
  by (simp add: then_do_def)

lemma is_digit_digit_char: "d < 10 \<Longrightarrow> is_digit (digit_char d)"
proof -
  assume "d < 10"
  then consider "d = 0" | "d = 1" | "d = 2" | "d = 3" | "d = 4" | "d = 5" | "d = 6" | "d = 7"
    | "d = 8" | "d = 9"
    by atomize_elim arith
  then show ?thesis
    by cases (simp_all add: is_digit_def digit_char_def)
qed

lemma digit_val_digit_char: "d < 10 \<Longrightarrow> digit_val (digit_char d) = d"
proof -
  assume "d < 10"
  then consider "d = 0" | "d = 1" | "d = 2" | "d = 3" | "d = 4" | "d = 5" | "d = 6" | "d = 7"
    | "d = 8" | "d = 9"
    by atomize_elim arith
  then show ?thesis
    by cases (simp_all add: digit_val_def digit_char_def)
qed

lemma is_digit_not_space: "is_digit c \<Longrightarrow> \<not> is_space c"
  by (auto simp: is_digit_def is_space_def)

lemma is_digit_not_special:
  "is_digit c \<Longrightarrow> c \<noteq> CHR ''.'' \<and> c \<noteq> CHR ''-'' \<and> c \<noteq> CHR ''+'' \<and> c \<noteq> CHR ''_''"
  by (auto simp: is_digit_def)

lemma str_nat_digits: "\<forall>c \<in> set (str_nat n). is_digit c"
proof (induction n rule: str_nat.induct)
  case (1 n)
  show ?case
  proof (cases "n < 10")
    case True
    then show ?thesis
      by (subst str_nat.simps) (simp add: is_digit_digit_char)
  next
    case False
    with "1" show ?thesis
      by (subst str_nat.simps) (simp add: is_digit_digit_char)
  qed
qed

lemma str_nat_nonempty: "str_nat n \<noteq> []"
  by (subst str_nat.simps) simp

lemma digits_val_snoc:
  "is_digit c \<Longrightarrow> digits_val (s @ [c]) = 10 * digits_val s + digit_val c"
  by (simp add: digits_val_def)

lemma digits_val_str_nat: "digits_val (str_nat n) = n"
proof (induction n rule: str_nat.induct)
  case (1 n)
  show ?case
  proof (cases "n < 10")
    case True
    then show ?thesis
      by (subst str_nat.simps)
        (simp add: digits_val_def is_digit_digit_char digit_val_digit_char)
  next
    case False
    with "1" show ?thesis
      by (subst str_nat.simps)
        (simp add: digits_val_snoc is_digit_digit_char digit_val_digit_char)
  qed
qed

lemma digitpart_all_digits: "s \<noteq> [] \<Longrightarrow> \<forall>c \<in> set s. is_digit c \<Longrightarrow> digitpart s"
proof (induction s rule: digitpart.induct)
  case 1
  then show ?case by simp
next
  case (2 c)
  then show ?case by simp
next
  case (3 c d cs)
  then show ?case
    using is_digit_not_special [of d] by simp
qed

lemma strip_all_digits: "\<forall>c \<in> set s. is_digit c \<Longrightarrow> strip s = s"
proof -
  assume a: "\<forall>c \<in> set s. is_digit c"
  then have "dropWhile is_space s = s"
    by (cases s) (simp_all add: is_digit_not_space)
  moreover from a have "dropWhile is_space (rev s) = rev s"
    by (cases "rev s") (auto simp: is_digit_not_space dest: arg_cong [where f = set])
  ultimately show ?thesis
    by (simp add: strip_def)
qed

lemma take_sign_digits: "\<forall>c \<in> set s. is_digit c \<Longrightarrow> take_sign s = (False, s)"
  using is_digit_not_special by (cases s) auto

lemma py_int_digits:
  assumes "s \<noteq> []" and "\<forall>c \<in> set s. is_digit c"
  shows "py_int s = Inr (int (digits_val s))"
  using assms
  by (simp add: py_int_def strip_all_digits take_sign_digits digitpart_all_digits)

lemma digits_val_zeros: "digits_val (replicate k (CHR ''0'') @ s) = digits_val s"
proof -
  have "foldl (\<lambda>a c. 10 * a + digit_val c) 0 (replicate j (CHR ''0'')) = 0" for j
    by (induction j) (simp_all add: digit_val_def)
  moreover have "filter is_digit (replicate k (CHR ''0'')) = replicate k (CHR ''0'')"
    by (simp add: is_digit_def)
  ultimately show ?thesis
    by (simp add: digits_val_def)
qed

lemma py_int_zfill: "py_int (zfill w (str_nat n)) = Inr (int n)"
proof -
  have "zfill w (str_nat n) \<noteq> []"
    by (simp add: zfill_def str_nat_nonempty)
  moreover have "\<forall>c \<in> set (zfill w (str_nat n)). is_digit c"
    using str_nat_digits [of n] by (auto simp: zfill_def is_digit_def)
  ultimately have "py_int (zfill w (str_nat n)) = Inr (int (digits_val (zfill w (str_nat n))))"
    by (rule py_int_digits)
  then show ?thesis
    by (simp add: zfill_def digits_val_zeros digits_val_str_nat)
qed

lemma split_on_absent: "c \<notin> set s \<Longrightarrow> split_on c s = [s]"
  by (induction s) auto

lemma split_on_first: "c \<notin> set a \<Longrightarrow> split_on c (a @ c # b) = a # split_on c b"
  by (induction a) auto

lemma dot_not_in_zfill: "CHR ''.'' \<notin> set (zfill w (str_nat n))"
  using str_nat_digits [of n] is_digit_not_special by (auto simp: zfill_def)

subsection \<open>The calendar\<close>

lemma isleap_leap_year: "isleap (int y) = leap_year y"
proof -
  have "(int y mod 4 = 0) = (4 dvd y)" "(int y mod 100 = 0) = (100 dvd y)"
    "(int y mod 400 = 0) = (400 dvd y)"
    by presburger+
  moreover have "400 dvd y \<Longrightarrow> 4 dvd y"
    by presburger
  ultimately show ?thesis
    by (auto simp: isleap_def leap_year_def)
qed

lemma monthrange_last_day:
  assumes "1 \<le> m" and "m \<le> 12"
  shows "monthrange (int y) (int m) = Inr (last_day_of_month y m)"
proof -
  from assms consider "m = 1" | "m = 2" | "m = 3" | "m = 4" | "m = 5" | "m = 6" | "m = 7"
    | "m = 8" | "m = 9" | "m = 10" | "m = 11" | "m = 12"
    by atomize_elim arith
  then show ?thesis
    by cases
      (simp_all add: monthrange_def mdays_def last_day_of_month_def isleap_leap_year)
qed

text \<open>
  C9. For every year and every month from 1 to 12, the period written as year, dot, month
  (\<^verbatim>\<open>2024.02\<close>, the form the script uses for the period 2024_02) is rendered as the date of
  the last calendar day of that month.
\<close>

theorem period_to_last_day_is_last_day:
  assumes "1 \<le> m" and "m \<le> 12"
  shows "period_to_last_day (fmt_0d 4 (int y) @ ''.'' @ fmt_0d 2 (int m)) =
         Inr (fmt_0d 4 (int y) @ ''-'' @ fmt_0d 2 (int m) @ ''-'' @
              fmt_0d 2 (int (last_day_of_month y m)))"
proof -
  have sp: "split_on (CHR ''.'') (zfill 4 (str_nat y) @ CHR ''.'' # zfill 2 (str_nat m)) =
            [zfill 4 (str_nat y), zfill 2 (str_nat m)]"
    by (simp add: split_on_first split_on_absent dot_not_in_zfill)
  show ?thesis
    by (simp add: period_to_last_day_def fmt_0d_def sp py_int_zfill
        monthrange_last_day [OF assms])
qed

theorem period_to_last_day_leap_february:
  "period_to_last_day ''2024.02'' = Inr ''2024-02-29'' \<and>
   period_to_last_day ''2025.02'' = Inr ''2025-02-28''"
  using period_to_last_day_is_last_day [of 2 2024] period_to_last_day_is_last_day [of 2 2025]
  by (simp add: fmt_0d_def zfill_def str_nat_numeral str_nat_small digit_char_def
      last_day_of_month_def leap_year_def)

subsection \<open>The period column detector\<close>

lemma scan_periods_filter:
  "\<forall>i \<in> set idxs. i < length all_cols \<Longrightarrow>
   scan_periods all_cols header_row idxs acc =
     Inr (acc @ filter (\<lambda>i. is_valid_period (cell_at header_row i)) idxs)"
  by (induction idxs arbitrary: acc) simp_all

lemma scan_periods_Inr:
  "scan_periods all_cols header_row idxs acc = Inr r \<Longrightarrow>
   r = acc @ filter (\<lambda>i. is_valid_period (cell_at header_row i)) idxs"
proof (induction idxs arbitrary: acc)
  case Nil
  then show ?case by simp
next
  case (Cons i idxs)
  from Cons.prems have run:
    "scan_periods all_cols header_row idxs
       (if is_valid_period (cell_at header_row i) then acc @ [i] else acc) = Inr r"
    by (simp split: if_splits)
  from Cons.IH [OF run] show ?case
    by simp
qed

lemma split_on_nonempty: "split_on c s \<noteq> []"
  by (induction s) (auto split: list.splits)

lemma nth_err_split_on_0: "nth_err (split_on c s) 0 = Inr (takeWhile (\<lambda>x. x \<noteq> c) s)"
proof -
  have "split_on c s ! 0 = takeWhile (\<lambda>x. x \<noteq> c) s"
    by (induction s) (auto split: list.splits simp: split_on_nonempty)
  then show ?thesis
    using split_on_nonempty [of c s] by (simp add: nth_err_def)
qed

lemma is_valid_period_iff:
  "is_valid_period c = (plausible_period_header c \<and> (\<forall>n. c \<noteq> CInt64 n))"
  by (cases c)
    (auto simp: is_valid_period_def plausible_period_header_def plausible_year_def
      year_segment_def nth_err_split_on_0 split: sum.splits)

lemma get_all_period_indices_filter:
  assumes "h < length (rows df)" and "e \<le> length (columns df)"
  shows "get_all_period_indices df (Some s) (Some e) h =
         Inr (filter (\<lambda>idx. is_valid_period (cell_at (rows df ! h) idx)) [s..<e])"
  using assms by (simp add: get_all_period_indices_def nth_err_def scan_periods_filter)

lemma get_all_period_indices_Inr:
  assumes "get_all_period_indices df ss es h = Inr r"
  shows "\<exists>s e. ss = Some s \<and> es = Some e \<and> h < length (rows df) \<and>
           r = filter (\<lambda>i. is_valid_period (cell_at (rows df ! h) i)) [s..<e]"
  using assms
  by (auto simp: get_all_period_indices_def nth_err_def then_do_def
      split: if_splits option.splits dest: scan_periods_Inr)

lemma get_all_period_indices_sorted:
  "get_all_period_indices df ss es h = Inr r \<Longrightarrow> sorted_wrt (<) r"
  by (auto dest!: get_all_period_indices_Inr intro: sorted_wrt_filter)

lemmas cell_eval = py_float_def strip_def is_space_def lower_def cut_at_def is_digit_def
  digits_val_def digit_val_def plausible_period_header_def plausible_year_def year_segment_def
  cell_at_def

text \<open>
  Within a section's column range, the detector returns the columns whose header-row cell is
  a plausible period header and no \<^verbatim>\<open>numpy.int64\<close>, in their original order; a column that
  fails the parse is left out and the scan goes on.
\<close>

lemma get_all_period_indices_exact:
  assumes "h < length (rows df)" and "e \<le> length (columns df)"
  shows "get_all_period_indices df (Some s) (Some e) h =
         Inr (filter (\<lambda>idx. plausible_period_header (cell_at (rows df ! h) idx) \<and>
                           (\<forall>n. cell_at (rows df ! h) idx \<noteq> CInt64 n)) [s..<e])"
  using get_all_period_indices_filter [OF assms] by (simp add: is_valid_period_iff)

lemma get_all_period_indices_mixed_section:
  "get_all_period_indices mixed_frame (Some 1) (Some 6) 0 = Inr [1, 2, 4]"
  using get_all_period_indices_exact [of 0 mixed_frame 6 1]
  by (simp add: mixed_frame_def cell_eval upt_conv_Cons)

text \<open>
  C7. The header cell 2025 of an all-integer column is a numeric value in the range 2017 to
  2030, and the detector does not return its column: of three columns headed by the Python
  int 2025, the \<^verbatim>\<open>numpy.int64\<close> 2025 and the float 2025.01, it returns the first and the third.
\<close>

theorem int64_year_header_skipped:
  "plausible_period_header (cell_at (rows int64_frame ! 0) 1) \<and>
   get_all_period_indices int64_frame (Some 0) (Some 3) 0 = Inr [0, 2]"
proof -
  have "get_all_period_indices int64_frame (Some 0) (Some 3) 0 = Inr [0, 2]"
    by (simp add: get_all_period_indices_filter is_valid_period_iff int64_frame_def cell_eval
        upt_conv_Cons)
  then show ?thesis
    by (simp add: int64_frame_def cell_eval)
qed

text \<open>
  C10. The detector validates the year segment of a textual header cell only: a cell made of a
  year segment in 2017 to 2030, a \<^verbatim>\<open>.\<close> and any month segment whatever is accepted as a period
  column.
\<close>

theorem month_segment_not_validated:
  assumes "h < length (rows df)" and "s \<le> idx" and "idx < e" and "e \<le> length (columns df)"
    and "cell_at (rows df ! h) idx = CStr (year_s @ ''.'' @ month_s)"
    and "CHR ''.'' \<notin> set year_s"
    and "py_float year_s = Inr y" and "rounds_between 2017 2030 y"
  shows "\<exists>r. get_all_period_indices df (Some s) (Some e) h = Inr r \<and> idx \<in> set r"
proof -
  have "takeWhile (\<lambda>x. x \<noteq> CHR ''.'') (year_s @ CHR ''.'' # month_s) = year_s"
    using assms(6) by (induction year_s) auto
  then have "is_valid_period (cell_at (rows df ! h) idx)"
    using assms(5,7,8) by (simp add: is_valid_period_def nth_err_split_on_0)
  then show ?thesis
    using assms(1-4) by (simp add: get_all_period_indices_filter)
qed

theorem month_segment_99_and_xyz_accepted:
  "py_int ''99'' = Inr 99 \<and> py_int ''xyz'' = Inl ValueError \<and>
   (\<exists>r. get_all_period_indices odd_month_frame (Some 0) (Some 2) 0 = Inr r \<and>
        0 \<in> set r \<and> 1 \<in> set r)"
proof -
  have y: "py_float ''2025'' = Inr (Literal False 2025 0)"
    by (simp add: cell_eval)
  have "\<exists>r. get_all_period_indices odd_month_frame (Some 0) (Some 2) 0 = Inr r \<and> 0 \<in> set r"
    using month_segment_not_validated
      [of 0 odd_month_frame 0 0 2 "''2025''" "''99''", OF _ _ _ _ _ _ y]
    by (simp add: odd_month_frame_def cell_at_def)
  moreover
  have "\<exists>r. get_all_period_indices odd_month_frame (Some 0) (Some 2) 0 = Inr r \<and> 1 \<in> set r"
    using month_segment_not_validated
      [of 0 odd_month_frame 0 1 2 "''2025''" "''xyz''", OF _ _ _ _ _ _ y]
    by (simp add: odd_month_frame_def cell_at_def)
  moreover have "py_int ''99'' = Inr 99" "py_int ''xyz'' = Inl ValueError"
    by (simp_all add: py_int_def strip_def is_space_def is_digit_def digits_val_def digit_val_def)
  ultimately show ?thesis
    by auto
qed

subsection \<open>The trailing-window selector\<close>

lemma keep_with_data_filter:
  "keep_with_data df thr idxs acc =
     acc @ filter (\<lambda>i. thr \<le> int (non_null_count df i)) idxs"
  by (induction idxs arbitrary: acc) simp_all

text \<open>
  C2. Whatever the candidate period columns of the section, the counts of non-empty cells
  below row 0 and the threshold are, the selector returns exactly the last \<open>min 12 k\<close> of the
  \<open>k\<close> candidates whose count reaches the threshold: at most 12 columns, in strictly increasing
  column order, each with a count of at least the threshold, and all \<open>k\<close> of them when
  \<open>k < 12\<close>.
\<close>

theorem trailing_window_is_last_12_qualifying:
  assumes "get_all_period_indices df ss es h = Inr candidates"
  shows "\<exists>window out.
           get_trailing_12_indices_with_data df ss es h threshold = Inr (window, out) \<and>
           (let qualifying = filter (\<lambda>c. threshold \<le> int (non_null_count df c)) candidates;
                k = length qualifying
            in window = drop (k - min 12 k) qualifying \<and>
               length window = min 12 k \<and> length window \<le> 12 \<and>
               sorted_wrt (<) window \<and>
               (\<forall>c \<in> set window. threshold \<le> int (non_null_count df c)) \<and>
               (k < 12 \<longrightarrow> window = qualifying))"
proof -
  define qualifying where
    "qualifying = filter (\<lambda>c. threshold \<le> int (non_null_count df c)) candidates"
  define window where "window = drop (length qualifying - min 12 (length qualifying)) qualifying"
  have sorted_q: "sorted_wrt (<) qualifying"
    unfolding qualifying_def
    using get_all_period_indices_sorted [OF assms] by (rule sorted_wrt_filter)
  have run: "\<exists>out. get_trailing_12_indices_with_data df ss es h threshold = Inr (window, out)"
    using assms
    by (simp add: get_trailing_12_indices_with_data_def keep_with_data_filter Let_def
        window_def qualifying_def min_def)
  have len: "length window = min 12 (length qualifying)"
    by (simp add: window_def)
  have sorted_w: "sorted_wrt (<) window"
    unfolding window_def using sorted_q by (rule sorted_wrt_drop)
  have dense: "\<forall>c \<in> set window. threshold \<le> int (non_null_count df c)"
  proof
    fix c assume "c \<in> set window"
    then have "c \<in> set qualifying"
      unfolding window_def by (rule in_set_dropD)
    then show "threshold \<le> int (non_null_count df c)"
      by (simp add: qualifying_def)
  qed
  have all: "length qualifying < 12 \<longrightarrow> window = qualifying"
    by (simp add: window_def)
  from run len sorted_w dense all show ?thesis
    unfolding Let_def qualifying_def [symmetric] window_def [symmetric] by auto
qed

lemma frame14_periods: "get_all_period_indices frame14 (Some 0) (Some 14) 0 = Inr [0..<14]"
  by (simp add: frame14_def get_all_period_indices_filter is_valid_period_iff cell_eval
      upt_conv_Cons)

lemma frame14_counts:
  "filter (\<lambda>c. 2 \<le> non_null_count frame14 c) [0..<14] =
     [2, 3, 4, 5, 6, 7, 8, 9, 10, 11, 12, 13]"
  by (simp add: frame14_def non_null_count_def notna_def cell_at_def upt_conv_Cons)

theorem trailing_window_of_14_columns:
  "\<exists>out. get_trailing_12_indices_with_data frame14 (Some 0) (Some 14) 0 2 =
           Inr ([2, 3, 4, 5, 6, 7, 8, 9, 10, 11, 12, 13], out)"
  using trailing_window_is_last_12_qualifying [OF frame14_periods, of 2]
  by (auto simp: frame14_counts Let_def)

subsection \<open>The header classifier\<close>

lemma find_section_indices_snoc:
  "find_section_indices (cols @ [c]) = section_step (find_section_indices cols) (length cols, c)"
  by (simp add: find_section_indices_def enumerate_append_eq)

lemma find_section_indices_Nil:
  "find_section_indices [] =
     \<lparr>arr_start = None, netchange_start = None, reason_start = None, filters_start = None\<rparr>"
  by (simp add: find_section_indices_def)

lemma last_match_Some:
  assumes "g [] = None"
    and "\<And>cols c. g (cols @ [c]) = (if P c then Some (length cols) else g cols)"
  shows "(g cols = Some i) =
         (i < length cols \<and> P (cols ! i) \<and> (\<forall>j. i < j \<and> j < length cols \<longrightarrow> \<not> P (cols ! j)))"
proof (induction cols rule: rev_induct)
  case Nil
  then show ?case by (simp add: assms(1))
next
  case (snoc c cols)
  show ?case
  proof (cases "P c")
    case True
    have "(length cols = i) =
          (i < Suc (length cols) \<and> P ((cols @ [c]) ! i) \<and>
           (\<forall>j. i < j \<and> j < Suc (length cols) \<longrightarrow> \<not> P ((cols @ [c]) ! j)))"
    proof
      assume "length cols = i"
      then show "i < Suc (length cols) \<and> P ((cols @ [c]) ! i) \<and>
           (\<forall>j. i < j \<and> j < Suc (length cols) \<longrightarrow> \<not> P ((cols @ [c]) ! j))"
        using True by auto
    next
      assume a: "i < Suc (length cols) \<and> P ((cols @ [c]) ! i) \<and>
           (\<forall>j. i < j \<and> j < Suc (length cols) \<longrightarrow> \<not> P ((cols @ [c]) ! j))"
      show "length cols = i"
      proof (rule ccontr)
        assume "length cols \<noteq> i"
        with a have "i < length cols" by simp
        moreover from a have
          "i < length cols \<and> length cols < Suc (length cols) \<longrightarrow>
           \<not> P ((cols @ [c]) ! length cols)"
          by blast
        ultimately have "\<not> P ((cols @ [c]) ! length cols)" by simp
        with True show False by simp
      qed
    qed
    with True show ?thesis
      by (simp add: assms(2))
  next
    case False
    have "(i < length cols \<and> P (cols ! i) \<and> (\<forall>j. i < j \<and> j < length cols \<longrightarrow> \<not> P (cols ! j))) =
          (i < Suc (length cols) \<and> P ((cols @ [c]) ! i) \<and>
           (\<forall>j. i < j \<and> j < Suc (length cols) \<longrightarrow> \<not> P ((cols @ [c]) ! j)))"
      using False by (auto simp: nth_append less_Suc_eq)
    with False snoc show ?thesis
      by (simp add: assms(2))
  qed
qed

lemma last_match_None:
  assumes "g [] = None"
    and "\<And>cols c. g (cols @ [c]) = (if P c then Some (length cols) else g cols)"
  shows "(g cols = None) = (\<forall>c \<in> set cols. \<not> P c)"
  by (induction cols rule: rev_induct) (simp_all add: assms)

lemma arr_start_snoc:
  "arr_start (find_section_indices (cols @ [c])) =
     (if py_str c = ''ARR by Period by Product'' then Some (length cols)
      else arr_start (find_section_indices cols))"
  by (simp add: find_section_indices_snoc section_step_def Let_def)

lemma netchange_start_snoc:
  "netchange_start (find_section_indices (cols @ [c])) =
     (if py_str c = ''Net Change by Period'' then Some (length cols)
      else netchange_start (find_section_indices cols))"
  by (simp add: find_section_indices_snoc section_step_def Let_def)

lemma reason_start_snoc:
  "reason_start (find_section_indices (cols @ [c])) =
     (if py_str c = ''Net Change Reason by Period'' then Some (length cols)
      else reason_start (find_section_indices cols))"
  by (simp add: find_section_indices_snoc section_step_def Let_def)

lemma filters_start_snoc:
  "filters_start (find_section_indices (cols @ [c])) =
     (if py_str c = ''Net Change Filters'' then Some (length cols)
      else filters_start (find_section_indices cols))"
  by (simp add: find_section_indices_snoc section_step_def Let_def)

lemma reported_start_snoc:
  "label \<in> set required_sentinels \<Longrightarrow>
   reported_start label (find_section_indices (cols @ [c])) =
     (if py_str c = label then Some (length cols)
      else reported_start label (find_section_indices cols))"
  by (auto simp: required_sentinels_def reported_start_def arr_start_snoc netchange_start_snoc
      reason_start_snoc filters_start_snoc)

lemma reported_start_Nil: "reported_start label (find_section_indices []) = None"
  by (simp add: reported_start_def find_section_indices_Nil)

lemma reported_start_Some:
  assumes "label \<in> set required_sentinels"
  shows "(reported_start label (find_section_indices cols) = Some i) =
         (i < length cols \<and> py_str (cols ! i) = label \<and>
          (\<forall>j. i < j \<and> j < length cols \<longrightarrow> py_str (cols ! j) \<noteq> label))"
  by (rule last_match_Some [where g = "\<lambda>cols. reported_start label (find_section_indices cols)"
        and P = "\<lambda>c. py_str c = label"])
    (simp_all add: reported_start_Nil reported_start_snoc [OF assms])

lemma reported_start_None:
  assumes "label \<in> set required_sentinels"
  shows "(reported_start label (find_section_indices cols) = None) =
         (\<forall>c \<in> set cols. py_str c \<noteq> label)"
  by (rule last_match_None [where g = "\<lambda>cols. reported_start label (find_section_indices cols)"
        and P = "\<lambda>c. py_str c = label"])
    (simp_all add: reported_start_Nil reported_start_snoc [OF assms])

subsection \<open>The period value\<close>

lemma py_int_single_digit: "is_digit d \<Longrightarrow> py_int [d] = Inr (int (digit_val d))"
  using py_int_digits [of "[d]"] by (simp add: digits_val_def)

lemma split_year_month:
  assumes "CHR ''.'' \<notin> set year_s" and "is_digit d"
  shows "split_on (CHR ''.'') (year_s @ CHR ''.'' # [d]) = [year_s, [d]]"
proof -
  have "d \<noteq> CHR ''.''"
    using assms(2) is_digit_not_special by blast
  then show ?thesis
    using assms(1) by (simp add: split_on_first)
qed

text \<open>
  C1, as the code has it. The function takes the period cell and no anchor, and it flags
  nothing: for every period cell, a text or a number, whose textual form is a year segment, a
  \<^verbatim>\<open>.\<close> and a single digit, it returns that digit as the month number, so that a single
  \<^verbatim>\<open>1\<close> is always January.
\<close>

theorem single_digit_month_read_literally:
  assumes "c = CStr s \<or> is_number c"
    and "py_str c = year_s @ ''.'' @ [d]"
    and "CHR ''.'' \<notin> set year_s" and "py_int year_s = Inr y" and "is_digit d"
  shows "detect_start_period_from_first_value c = Inr (y, int (digit_val d))"
proof -
  have sp: "split_on (CHR ''.'') (py_str c) = [year_s, [d]]"
    using split_year_month [OF assms(3,5)] assms(2) by simp
  have dot: "CHR ''.'' \<in> set (py_str c)"
    using assms(2) by simp
  from assms(1) show ?thesis
  proof
    assume "c = CStr s"
    with sp assms(4,5) show ?thesis
      by (simp add: detect_start_period_from_first_value_def py_str_def Let_def nth_err_def
          py_int_single_digit)
  next
    assume "is_number c"
    then show ?thesis
      using sp dot assms(4,5)
      by (cases c)
        (simp_all add: detect_start_period_from_first_value_def Let_def nth_err_def
          py_int_single_digit)
  qed
qed

lemma bit_length_numeral:
  "bit_length (numeral k) =
     (if (numeral k :: nat) = 0 then 0 else Suc (bit_length (numeral k div 2)))"
  by (rule bit_length.simps)

lemma bit_length_small: "bit_length 0 = 0" "bit_length 1 = 1" "bit_length (Suc 0) = 1"
  by (simp_all add: bit_length.simps)

lemma int_of_float_1e23: "int_of_float (Dec False 1 23) = Inr 99999999999999991611392"
  by (simp add: int_of_float_def nearest_double_def bit_length_numeral bit_length_small Let_def)

lemmas int_eval = py_int_def strip_def is_space_def is_digit_def digits_val_def digit_val_def

theorem textual_2025_1_is_january:
  "detect_start_period_from_first_value (CStr ''2025.1'') = Inr (2025, 1)"
  using single_digit_month_read_literally
    [of "CStr ''2025.1''" "''2025.1''" "''2025''" "CHR ''1''" 2025]
  by (simp add: py_str_def int_eval)

text \<open>
  The float of October 2025, \<^verbatim>\<open>2025.10\<close>, is the float \<^verbatim>\<open>2025.1\<close>: it is returned as January
  2025 with no flag, and so is the text \<^verbatim>\<open>2025.1\<close>.
\<close>

theorem october_float_read_as_january:
  "float_repr (Dec False 20251 (- 1)) = ''2025.1'' \<and>
   detect_start_period_from_first_value (CFloat (Dec False 20251 (- 1))) = Inr (2025, 1) \<and>
   detect_start_period_from_first_value (CStr ''2025.1'') = Inr (2025, 1)"
  by (simp add: detect_start_period_from_first_value_def py_str_def float_repr_def Let_def
      str_nat_numeral str_nat_small digit_char_def nth_err_def int_eval)


subsection \<open>Sections that are absent\<close>

text \<open>
  C5, as the code has it. The classifier is given the column labels and nothing of the rows:
  the start of a section is the last column whose label, printed by \<^verbatim>\<open>str\<close>, equals the
  sentinel label exactly, whatever the header row holds.
\<close>

theorem section_start_by_column_label:
  assumes "label \<in> set required_sentinels"
  shows "((reported_start label (find_section_indices (columns df)) = Some i) =
          (i < length (columns df) \<and> py_str (columns df ! i) = label \<and>
           (\<forall>j. i < j \<and> j < length (columns df) \<longrightarrow> py_str (columns df ! j) \<noteq> label))) \<and>
         find_section_indices (columns (df\<lparr>rows := other_rows\<rparr>)) =
           find_section_indices (columns df)"
  using reported_start_Some [OF assms] by simp

theorem section_title_as_label_found:
  "reported_start ''ARR by Period by Product''
     (find_section_indices (columns titled_label_frame)) = Some 0"
  using section_start_by_column_label [of "''ARR by Period by Product''" titled_label_frame 0]
  by (auto simp: required_sentinels_def titled_label_frame_def py_str_def)

text \<open>
  A column whose header-row cell is the sentinel under another label is not found; a column
  whose label is the sentinel over another header-row cell is.
\<close>

theorem section_title_in_header_row_not_found:
  "cell_at (rows titled_row_frame ! 0) 0 = CStr ''ARR by Period by Product'' \<and>
   arr_start (find_section_indices (columns titled_row_frame)) = None \<and>
   columns titled_label_frame ! 0 = CStr ''ARR by Period by Product'' \<and>
   cell_at (rows titled_label_frame ! 0) 0 = CStr ''2025.01'' \<and>
   arr_start (find_section_indices (columns titled_label_frame)) = Some 0"
  by (simp add: titled_row_frame_def titled_label_frame_def cell_at_def find_section_indices_def
      section_step_def py_str_def Let_def)

text \<open>
  Without the label \<^verbatim>\<open>Net Change Filters\<close> the classifier returns the three other starts and
  \<open>None\<close> for the fourth; it reports no error.
\<close>

theorem absent_filters_label_partial_result:
  "find_section_indices
     [CStr ''ARR by Period by Product'', CStr ''Net Change by Period'',
      CStr ''Net Change Reason by Period''] =
   \<lparr>arr_start = Some 0, netchange_start = Some 1, reason_start = Some 2,
    filters_start = None\<rparr>"
  by (simp add: find_section_indices_def section_step_def py_str_def Let_def)

lemma section_start_bound:
  "arr_start (find_section_indices cols) = Some i \<Longrightarrow> i < length cols"
  "netchange_start (find_section_indices cols) = Some i \<Longrightarrow> i < length cols"
  "reason_start (find_section_indices cols) = Some i \<Longrightarrow> i < length cols"
  "filters_start (find_section_indices cols) = Some i \<Longrightarrow> i < length cols"
  using reported_start_Some [of "''ARR by Period by Product''" cols i]
    reported_start_Some [of "''Net Change by Period''" cols i]
    reported_start_Some [of "''Net Change Reason by Period''" cols i]
    reported_start_Some [of "''Net Change Filters''" cols i]
  by (simp_all add: required_sentinels_def reported_start_def)

lemma gapi_None:
  "ss = None \<or> es = None \<Longrightarrow> rows df \<noteq> [] \<Longrightarrow>
   get_all_period_indices df ss es 0 = Inl TypeError"
  by (auto simp: get_all_period_indices_def nth_err_def split: option.splits)

lemma trailing_None:
  "ss = None \<or> es = None \<Longrightarrow> rows df \<noteq> [] \<Longrightarrow>
   get_trailing_12_indices_with_data df ss es 0 thr = Inl TypeError"
  by (simp add: get_trailing_12_indices_with_data_def gapi_None)

lemma trailing_Some:
  "rows df \<noteq> [] \<Longrightarrow> e \<le> length (columns df) \<Longrightarrow>
   \<exists>t. get_trailing_12_indices_with_data df (Some s) (Some e) 0 thr = Inr t"
  by (simp add: get_trailing_12_indices_with_data_def get_all_period_indices_filter Let_def)

lemma select_windows_TypeError:
  assumes "label \<in> set required_sentinels"
    and "reported_start label (find_section_indices (columns df)) = None"
    and "36 \<le> length (columns df)" and "rows df \<noteq> []"
  shows "select_windows df = Inl TypeError"
proof -
  let ?sec = "find_section_indices (columns df)"
  have ids: "nth_err (columns df) 0 = Inr (columns df ! 0)"
    "nth_err (columns df) (Suc 0) = Inr (columns df ! 1)"
    "nth_err (columns df) 35 = Inr (columns df ! 35)"
    using assms(3) by (auto simp: nth_err_def)
  from assms(1,2) have none:
    "arr_start ?sec = None \<or> netchange_start ?sec = None \<or> reason_start ?sec = None \<or>
     filters_start ?sec = None"
    by (auto simp: required_sentinels_def reported_start_def)
  show ?thesis
  proof (cases "arr_start ?sec = None \<or> netchange_start ?sec = None")
    case True
    then show ?thesis
      using assms(4) by (simp add: select_windows_def Let_def ids trailing_None)
  next
    case False
    then obtain a n where an: "arr_start ?sec = Some a" "netchange_start ?sec = Some n"
      by auto
    then have n: "n \<le> length (columns df)"
      using section_start_bound(2) [of "columns df" n] by simp
    obtain t where t:
      "get_trailing_12_indices_with_data df (Some a) (Some n) 0 MIN_DATA_ROWS = Inr t"
      using trailing_Some [OF assms(4) n] by blast
    have all1: "get_all_period_indices df (Some a) (Some n) 0 =
      Inr (filter (\<lambda>idx. is_valid_period (cell_at (rows df ! 0) idx)) [a..<n])"
      using assms(4) n by (simp add: get_all_period_indices_filter)
    show ?thesis
    proof (cases "reason_start ?sec")
      case None
      then show ?thesis
        using assms(4) an t all1
        by (simp add: select_windows_def Let_def ids gapi_None)
    next
      case (Some r)
      then have r: "r \<le> length (columns df)"
        using section_start_bound(3) [of "columns df" r] by simp
      have all2: "get_all_period_indices df (Some n) (Some r) 0 =
        Inr (filter (\<lambda>idx. is_valid_period (cell_at (rows df ! 0) idx)) [n..<r])"
        using assms(4) r by (simp add: get_all_period_indices_filter)
      from none False Some have "filters_start ?sec = None"
        by auto
      then show ?thesis
        using assms(4) an t all1 all2 Some
        by (simp add: select_windows_def Let_def ids gapi_None)
    qed
  qed
qed

lemma select_windows_short_frame:
  assumes "\<not> (36 \<le> length (columns df) \<and> rows df \<noteq> [])"
  shows "select_windows df = Inl IndexError"
proof (cases "36 \<le> length (columns df)")
  case True
  with assms have "rows df = []" by simp
  then have "get_trailing_12_indices_with_data df ss es 0 thr = Inl IndexError" for ss es thr
    by (simp add: get_trailing_12_indices_with_data_def get_all_period_indices_def nth_err_def)
  moreover from True have "0 < length (columns df)" "1 < length (columns df)"
    "35 < length (columns df)"
    by auto
  ultimately show ?thesis
    by (simp add: select_windows_def Let_def nth_err_def)
next
  case False
  then have "\<not> 35 < length (columns df)"
    by simp
  then show ?thesis
    by (simp add: select_windows_def Let_def nth_err_def)
qed

text \<open>
  C6, as the code has it. When a required sentinel label is absent from the column labels the
  classifier reports \<open>None\<close> for its section and no error. The run then raises before any
  sheet is produced: a TypeError, from \<^verbatim>\<open>range\<close> on the bound \<open>None\<close>, when the frame has its
  36 identifier columns and a header row.
\<close>

theorem absent_sentinel_reported_as_None:
  assumes "label \<in> set required_sentinels"
    and "\<forall>c \<in> set (columns df). py_str c \<noteq> label"
  shows "reported_start label (find_section_indices (columns df)) = None \<and>
         (\<exists>e. select_windows df = Inl e \<and> process_arr_waterfall df = Inl e) \<and>
         (36 \<le> length (columns df) \<and> rows df \<noteq> [] \<longrightarrow> select_windows df = Inl TypeError)"
proof -
  have none: "reported_start label (find_section_indices (columns df)) = None"
    using assms(2) by (simp add: reported_start_None [OF assms(1)])
  have "\<exists>e. select_windows df = Inl e"
    using select_windows_TypeError [OF assms(1) none] select_windows_short_frame [of df]
    by blast
  then have "\<exists>e. select_windows df = Inl e \<and> process_arr_waterfall df = Inl e"
    by (auto simp: process_arr_waterfall_def)
  with none select_windows_TypeError [OF assms(1) none] show ?thesis
    by blast
qed

subsection \<open>The cross-section mapping\<close>

lemma align_windows_Inr:
  assumes "arr \<noteq> []" and "index_of arr_all (arr ! 0) = Inr off"
  shows "align_windows arr arr_all nc rs =
         Inr (off, take 12 (drop off nc), take 12 (drop off rs))"
  using assms by (simp add: align_windows_def nth_err_def slice_def)

lemma map_sections_Inr:
  assumes "arr \<noteq> []" and "index_of arr_all (arr ! 0) = Inr off"
    and "off < length nc" and "off < length rs"
  shows "map_sections arr arr_all nc rs =
     Inr \<lparr>arr_indices = arr, netchange_indices = take 12 (drop off nc),
          reason_indices = take 12 (drop off rs),
          printed =
            [CHR 0x0A # ''ARR trailing 12 indices: '' @ str_nat (arr ! 0) @ '' to '' @
               str_nat (last arr),
             ''Relative start position within section: '' @ str_nat off,
             CHR 0x0A # ''Mapped indices:'',
             span_line ''ARR'' (arr ! 0) (last arr) (length arr),
             span_line ''Net Change'' (nc ! off) (last (take 12 (drop off nc)))
               (min (length nc - off) 12),
             span_line ''Change Reason'' (rs ! off) (last (take 12 (drop off rs)))
               (min (length rs - off) 12)]\<rparr>"
  using assms
  by (simp add: map_sections_def align_windows_Inr nth_err_def last_err_def)

lemma map_sections_empty_window:
  assumes "arr \<noteq> []" and "index_of arr_all (arr ! 0) = Inr off"
    and "\<not> (off < length nc \<and> off < length rs)"
  shows "map_sections arr arr_all nc rs = Inl IndexError"
  using assms
  by (auto simp: map_sections_def align_windows_Inr nth_err_def last_err_def)


text \<open>
  C4, as the code has it. Given a reference window that is not empty, its first column at the
  position \<open>offset\<close> among the period columns of the reference section: whenever another
  section has fewer than \<open>offset + 12\<close> period columns, its window is cut to the columns from
  the offset on. No diagnostic of a mismatch is reported: whenever the block returns, it has
  printed the six lines of the report it always prints, with the first and last index and the
  number of periods of each window. The block returns whenever each of the two other sections
  has more than \<open>offset\<close> period columns.
\<close>

theorem short_section_window_truncated:
  assumes "arr \<noteq> []" and "index_of arr_all (arr ! 0) = Inr off"
  shows "\<exists>w_nc w_rs.
           align_windows arr arr_all nc rs = Inr (off, w_nc, w_rs) \<and>
           (length nc < off + 12 \<longrightarrow> w_nc = drop off nc \<and> length w_nc = length nc - off) \<and>
           (length rs < off + 12 \<longrightarrow> w_rs = drop off rs \<and> length w_rs = length rs - off) \<and>
           (off < length nc \<and> off < length rs \<longrightarrow>
              (\<exists>sel. map_sections arr arr_all nc rs = Inr sel)) \<and>
           (\<forall>sel. map_sections arr arr_all nc rs = Inr sel \<longrightarrow>
              netchange_indices sel = w_nc \<and> reason_indices sel = w_rs \<and>
              printed sel =
                [CHR 0x0A # ''ARR trailing 12 indices: '' @ str_nat (arr ! 0) @ '' to '' @
                   str_nat (last arr),
                 ''Relative start position within section: '' @ str_nat off,
                 CHR 0x0A # ''Mapped indices:'',
                 span_line ''ARR'' (arr ! 0) (last arr) (length arr),
                 span_line ''Net Change'' (nc ! off) (last w_nc) (length w_nc),
                 span_line ''Change Reason'' (rs ! off) (last w_rs) (length w_rs)])"
proof -
  let ?w_nc = "take 12 (drop off nc)" and ?w_rs = "take 12 (drop off rs)"
  have returned: "netchange_indices sel = ?w_nc \<and> reason_indices sel = ?w_rs \<and>
      printed sel =
        [CHR 0x0A # ''ARR trailing 12 indices: '' @ str_nat (arr ! 0) @ '' to '' @
           str_nat (last arr),
         ''Relative start position within section: '' @ str_nat off,
         CHR 0x0A # ''Mapped indices:'',
         span_line ''ARR'' (arr ! 0) (last arr) (length arr),
         span_line ''Net Change'' (nc ! off) (last ?w_nc) (length ?w_nc),
         span_line ''Change Reason'' (rs ! off) (last ?w_rs) (length ?w_rs)]"
    if "map_sections arr arr_all nc rs = Inr sel" for sel
  proof (cases "off < length nc \<and> off < length rs")
    case True
    with that map_sections_Inr [OF assms, of nc rs] show ?thesis
      by auto
  next
    case False
    with that map_sections_empty_window [OF assms, of nc rs] show ?thesis
      by simp
  qed
  have returns: "off < length nc \<and> off < length rs \<longrightarrow>
      (\<exists>sel. map_sections arr arr_all nc rs = Inr sel)"
    using map_sections_Inr [OF assms, of nc rs] by auto
  have cut_nc: "length nc < off + 12 \<longrightarrow> ?w_nc = drop off nc \<and> length ?w_nc = length nc - off"
    by auto
  have cut_rs: "length rs < off + 12 \<longrightarrow> ?w_rs = drop off rs \<and> length ?w_rs = length rs - off"
    by auto
  from align_windows_Inr [OF assms, of nc rs] cut_nc cut_rs returns returned show ?thesis
    by (intro exI [of _ ?w_nc] exI [of _ ?w_rs]) blast
qed

lemmas str_eval = str_nat_numeral str_nat_small digit_char_def span_line_def


text \<open>
  Candidate counts 14 and 13 at offset 2: the window of the shorter section has 11 periods
  and the printed lines are the usual report. With 2 candidates in that section its window is
  empty and the report raises IndexError.
\<close>

theorem mismatch_14_13_no_diagnostic_and_fault:
  "map_sections [12, 13, 14, 15, 16, 17, 18, 19, 20, 21, 22, 23]
     [10, 11, 12, 13, 14, 15, 16, 17, 18, 19, 20, 21, 22, 23]
     [30, 31, 32, 33, 34, 35, 36, 37, 38, 39, 40, 41, 42]
     [50, 51, 52, 53, 54, 55, 56, 57, 58, 59, 60, 61, 62, 63] =
   Inr \<lparr>arr_indices = [12, 13, 14, 15, 16, 17, 18, 19, 20, 21, 22, 23],
        netchange_indices = [32, 33, 34, 35, 36, 37, 38, 39, 40, 41, 42],
        reason_indices = [52, 53, 54, 55, 56, 57, 58, 59, 60, 61, 62, 63],
        printed =
          [CHR 0x0A # ''ARR trailing 12 indices: 12 to 23'',
           ''Relative start position within section: 2'',
           CHR 0x0A # ''Mapped indices:'',
           ''  ARR: 12 to 23 (12 periods)'',
           ''  Net Change: 32 to 42 (11 periods)'',
           ''  Change Reason: 52 to 63 (12 periods)'']\<rparr> \<and>
   map_sections [12, 13, 14, 15, 16, 17, 18, 19, 20, 21, 22, 23]
     [10, 11, 12, 13, 14, 15, 16, 17, 18, 19, 20, 21, 22, 23]
     [30, 31]
     [50, 51, 52, 53, 54, 55, 56, 57, 58, 59, 60, 61, 62, 63] = Inl IndexError"
  by code_simp


lemma ref14_offset: "index_of ref14_periods (ref14_window ! 0) = Inr 2"
  by (simp add: ref14_periods_def ref14_window_def)


theorem window_of_13_candidates_has_11:
  "\<exists>sel. map_sections ref14_window ref14_periods short13_periods other14_periods = Inr sel \<and>
     netchange_indices sel = [32, 33, 34, 35, 36, 37, 38, 39, 40, 41, 42] \<and>
     length (netchange_indices sel) = 11"
proof -
  from short_section_window_truncated
    [of ref14_window ref14_periods 2 short13_periods other14_periods, OF _ ref14_offset]
  obtain w_nc w_rs sel where
    "w_nc = drop 2 short13_periods"
    "map_sections ref14_window ref14_periods short13_periods other14_periods = Inr sel"
    "netchange_indices sel = w_nc"
    by (auto simp: ref14_window_def short13_periods_def other14_periods_def)
  then show ?thesis
    by (auto simp: short13_periods_def)
qed

subsection \<open>A whole run\<close>

























theorem run_without_filters_label_raises:
  "filters_start (find_section_indices (columns (wide_frame titles_without_filters))) = None \<and>
   select_windows (wide_frame titles_without_filters) = Inl TypeError \<and>
   process_arr_waterfall (wide_frame titles_without_filters) = Inl TypeError"
  using absent_sentinel_reported_as_None
    [of "''Net Change Filters''" "wide_frame titles_without_filters"]
  by (auto simp: required_sentinels_def reported_start_def wide_frame_def wide_labels_def
      titles_without_filters_def py_str_def)

end
